theory Spec2Isabelle
  imports Main "HOL-Library.Char_ord" "HOL-Library.List_Lexorder"
begin

section \<open>Operations and documents\<close>

text \<open>
  The classes \<open>Operation\<close>, \<open>Query\<close>, \<open>Mutation\<close> and \<open>Document\<close> are imported by the
  client but their files are not part of the sources at hand. The client reads two things
  from them: the \<open>name\<close> of an operation and the \<open>operations\<close> array of a document.
\<close>

text \<open>
  Modelled from the spec: argument values and selections (section 3 of the specification).
  A field selection has a field name, an optional alias, arguments and an optional nested
  selection set; a fragment selection is bound to a concrete type and has a nested
  selection set.
\<close>

datatype arg_value =
    VariableRef string
  | EnumValue string
  | StringValue string
  | IntValue int
  | BoolValue bool
  | NullValue

datatype selection =
    FieldSelection string "string option" "(string \<times> arg_value) list" "selection list option"
  | FragmentSelection string "selection list"

record variable_definition =
  variableName :: string
  declaredType :: string
  defaultValue :: "arg_value option"

datatype operation_kind = Query | Mutation

text \<open>
  Modelled from the spec: the \<open>Operation\<close> class (section 3 of the specification): a kind,
  an optional name, an ordered sequence of variable definitions (each a name, a declared
  type and an optional default value) and a root selection set.
\<close>

record operation =
  kind :: operation_kind
  name :: "string option"
  variableDefinitions :: "variable_definition list"
  selectionSet :: "selection list"

text \<open>
  Modelled from the spec: the \<open>Document\<close> class: an ordered sequence of operations.
\<close>

record document =
  operations :: "operation list"

datatype operation_or_document = Op operation | Doc document

section \<open>JavaScript values\<close>

text \<open>
  \<open>Error msg\<close> is \<open>new Error(msg)\<close>; \<open>TypeError\<close> is what the engine raises when a property
  of \<open>null\<close> or \<open>undefined\<close> is read or a non-function is called (its message is
  engine-specific and not represented).
\<close>

datatype error = Error string | TypeError

text \<open>
  Modelled from the spec: the type descriptor carried by a decoded model; the client reads
  \<open>type.name\<close> and \<open>type.implementsNode\<close>.
\<close>

record type_descriptor =
  type_name :: string
  implementsNode :: bool

text \<open>
  Modelled from the spec: a decoded model (\<open>GraphModel\<close>, not part of the sources at hand)
  with what the client uses of it: its \<open>type\<close>, its decoded field values (read as
  \<open>model.node\<close> and \<open>object[key]\<close>), \<open>hasNextPage\<close>, \<open>variableValues\<close> (an object, or
  \<open>None\<close> when absent), and the results of calling its methods \<open>nextPageQueryAndPath()\<close> and
  \<open>refetchQuery()\<close> (\<open>Inl\<close> when the call raises, which includes the method being absent).
\<close>

datatype 'v graph_model =
  GraphModel
    (model_type: type_descriptor)
    (model_attrs: "(string \<times> 'v) list")
    (model_hasNextPage: 'v)
    (model_variableValues: "(string \<times> 'v) list option")
    (model_nextPageQueryAndPath: "error + operation \<times> string list")
    (model_refetchQuery: "error + operation")

text \<open>
  The values that flow through the client: JSON data, and decoded models. Numbers are
  represented by integers, which is all the client distinguishes (zero or not, a length).
  An object is the ordered list of its own properties.
\<close>

datatype val =
    VUndefined
  | VNull
  | VBool bool
  | VNum int
  | VStr string
  | VArr "val list"
  | VObj "(string \<times> val) list"
  | VModel "val graph_model"

type_synonym props = "(string \<times> val) list"

fun truthy :: "val \<Rightarrow> bool" where
  "truthy VUndefined = False"
| "truthy VNull = False"
| "truthy (VBool b) = b"
| "truthy (VNum n) = (n \<noteq> 0)"
| "truthy (VStr s) = (s \<noteq> [])"
| "truthy (VArr xs) = True"
| "truthy (VObj ps) = True"
| "truthy (VModel m) = True"

text \<open>\<open>obj.key\<close> on an object: the value of the property, \<open>undefined\<close> when it has none.\<close>

definition get_own :: "props \<Rightarrow> string \<Rightarrow> val" where
  "get_own ps k = (case map_of ps k of Some v \<Rightarrow> v | None \<Rightarrow> VUndefined)"

text \<open>
  \<open>obj.key = v\<close>: an existing property keeps its place and takes the new value, a new one is
  added at the end.
\<close>

fun set_own :: "props \<Rightarrow> string \<Rightarrow> val \<Rightarrow> props" where
  "set_own [] k v = [(k, v)]"
| "set_own ((k', v') # ps) k v = (if k' = k then (k, v) # ps else (k', v') # set_own ps k v)"

text \<open>
  \<open>Object.assign(target, source)\<close> for a source that is an object, \<open>null\<close> or \<open>undefined\<close>
  (\<open>None\<close>): a missing source is skipped.
\<close>

definition object_assign :: "props \<Rightarrow> props option \<Rightarrow> props" where
  "object_assign target source =
     (case source of
        None \<Rightarrow> target
      | Some ps \<Rightarrow> foldl (\<lambda>t (k, v). set_own t k v) target ps)"

text \<open>
  \<open>a === b\<close> where \<open>a\<close> is a primitive: equal values of the same type. (Objects are equal
  only to themselves; no object is equal to a primitive.)
\<close>

fun strict_eq_prim :: "val \<Rightarrow> val \<Rightarrow> bool" where
  "strict_eq_prim VUndefined b = (b = VUndefined)"
| "strict_eq_prim VNull b = (b = VNull)"
| "strict_eq_prim (VBool x) b = (b = VBool x)"
| "strict_eq_prim (VNum x) b = (b = VNum x)"
| "strict_eq_prim (VStr x) b = (b = VStr x)"
| "strict_eq_prim _ b = False"

definition name_val :: "string option \<Rightarrow> val" where
  "name_val n = (case n of None \<Rightarrow> VUndefined | Some s \<Rightarrow> VStr s)"

text \<open>\<open>array.find(p)\<close>: the first element that satisfies \<open>p\<close>, \<open>undefined\<close> (\<open>None\<close>) if none.\<close>

fun array_find :: "('a \<Rightarrow> bool) \<Rightarrow> 'a list \<Rightarrow> 'a option" where
  "array_find p [] = None"
| "array_find p (x # xs) = (if p x then Some x else array_find p xs)"

section \<open>Promises, effects and the transport\<close>

text \<open>A promise is represented by the state in which it settles.\<close>

datatype 'a settled = Resolved 'a | Rejected error

text \<open>A call either raises synchronously or returns.\<close>

datatype 'a outcome = Threw error | Returned 'a

text \<open>
  The transport: \<open>fetcher(graphQLParams, headers)\<close> returns a promise of a response object
  (or raises); what it answers is taken as a function of what it is asked. \<open>headers\<close> is an
  object or \<open>null\<close>.
\<close>

type_synonym response = props

type_synonym fetcher = "props \<Rightarrow> props option \<Rightarrow> response settled outcome"

text \<open>
  What a client method does besides computing its result: the calls of the transport, in
  order, and the assignments \<open>response.model = v\<close> to a response object of the transport.
  The client's source contains no other assignment to an object it has not created itself.
\<close>

datatype event =
    FetcherCall props "props option"
  | SetModel response val

type_synonym type_bundle = "(string \<times> type_descriptor) list"

text \<open>
  Modelled from the spec: the class registry maps a type name to a constructor (here the
  constructor's name); \<open>new ClassRegistry()\<close> is the empty registry.
\<close>

type_synonym class_registry = "(string \<times> string) list"

definition new_ClassRegistry :: class_registry where
  "new_ClassRegistry = []"

record client =
  typeBundle :: type_bundle
  classRegistry :: class_registry
  fetcher :: fetcher

text \<open>
  The collaborators of the client whose files are not part of the sources at hand, taken as
  parameters: \<open>toString\<close> of an operation or document (with the directive context),
  \<open>decode(operation, data, {classRegistry, variableValues})\<close>, where the operation may be
  \<open>undefined\<close> (\<open>None\<close>) and the call may raise, and \<open>httpFetcher(url, fetcherOptions)\<close>.
\<close>

record deps =
  toString :: "operation_or_document \<Rightarrow> val \<Rightarrow> string"
  decode :: "operation option \<Rightarrow> val \<Rightarrow> class_registry \<Rightarrow> props option \<Rightarrow> error + val"
  httpFetcher :: "string \<Rightarrow> props option \<Rightarrow> fetcher"

section \<open>The client\<close>

subsection \<open>The constructor\<close>

text \<open>
  The options object of the constructor, with the types its documentation gives: \<open>url\<close> a
  string, \<open>fetcherOptions\<close> an object, \<open>fetcher\<close> a function, \<open>registry\<close> a class registry;
  \<open>None\<close> is a property that is missing. A string is truthy when it is not empty; objects
  and functions are always truthy.
\<close>

record options =
  opt_url :: "string option"
  opt_fetcherOptions :: "props option"
  opt_fetcher :: "fetcher option"
  opt_registry :: "class_registry option"

definition url_and_fetcher_message :: string where
  "url_and_fetcher_message =
     ''Arguments not supported: supply either `url` and optional `fetcherOptions` OR use a `fetcher` function for further customization.''"

definition fetcherOptions_message :: string where
  "fetcherOptions_message =
     ''Arguments not supported: when specifying your own `fetcher`, set options through it and not with `fetcherOptions`''"

definition url_or_fetcher_needed_message :: string where
  "url_or_fetcher_needed_message = ''Invalid arguments: one of `url` or `fetcher` is needed.''"

text \<open>
  The test \<open>if (url)\<close> holds for a non-empty string; a missing \<open>url\<close> and the empty string
  are both falsy, and the value is used only where it is truthy.
\<close>

definition constructor :: "deps \<Rightarrow> type_bundle \<Rightarrow> options \<Rightarrow> error + client" where
  "constructor d bundle opts =
     (let reg = (case opt_registry opts of None \<Rightarrow> new_ClassRegistry | Some r \<Rightarrow> r);
          url = (case opt_url opts of None \<Rightarrow> [] | Some u \<Rightarrow> u)
      in
      if url \<noteq> [] \<and> opt_fetcher opts \<noteq> None then Inl (Error url_and_fetcher_message)
      else if url \<noteq> [] then
        Inr \<lparr>typeBundle = bundle, classRegistry = reg,
             fetcher = httpFetcher d url (opt_fetcherOptions opts)\<rparr>
      else
        (case opt_fetcher opts of
           Some f \<Rightarrow>
             if opt_fetcherOptions opts \<noteq> None then Inl (Error fetcherOptions_message)
             else Inr \<lparr>typeBundle = bundle, classRegistry = reg, fetcher = f\<rparr>
         | None \<Rightarrow> Inl (Error url_or_fetcher_needed_message)))"

subsection \<open>send\<close>

text \<open>
  The request is an operation, a document, or a function that receives the client and
  returns one of the two (or raises).
\<close>

datatype request =
    RequestFunction "client \<Rightarrow> operation_or_document outcome"
  | RequestValue operation_or_document

definition newline :: string where
  "newline = [CHR 0x0A]"

definition operationName_message :: string where
  "operationName_message =
     newline @
     ''          A document must contain exactly one operation, or an operationName'' @ newline @
     ''          must be specified. Example:'' @ newline @
     newline @
     ''            client.send(document, null, {operationName: '' @ [CHR 0x27] @ ''myFancyQuery'' @
       [CHR 0x27] @ ''});'' @ newline @
     ''        ''"

text \<open>
  \<open>promise.then(callback)\<close>, where the callback returns a value or a promise, or raises
  (which rejects the new promise), and may have effects. A rejected promise skips the callback.
\<close>

definition andThen ::
  "'a settled \<Rightarrow> ('a \<Rightarrow> event list \<times> 'b settled) \<Rightarrow> event list \<times> 'b settled" where
  "andThen p callback = (case p of Resolved x \<Rightarrow> callback x | Rejected e \<Rightarrow> ([], Rejected e))"

text \<open>
  Lines 133 to 139 of \<open>send\<close>: the parameters handed to the transport. \<open>variableValues\<close>
  and \<open>otherProperties\<close> are objects or \<open>null\<close> (\<open>None\<close>).
\<close>

definition graphQLParams ::
  "deps \<Rightarrow> operation_or_document \<Rightarrow> props option \<Rightarrow> props option \<Rightarrow> val \<Rightarrow> props" where
  "graphQLParams d operationOrDocument vars otherProperties inContextDirective =
     (let params = [(''query'', VStr (toString d operationOrDocument inContextDirective))];
          params' = (case vars of
                       Some vs \<Rightarrow> set_own params ''variables'' (VObj vs)
                     | None \<Rightarrow> params)
      in object_assign params' otherProperties)"

text \<open>
  Lines 141 to 160 of \<open>send\<close>: the operation handed to the decoder, \<open>None\<close> when \<open>find\<close>
  returns \<open>undefined\<close>. Reading \<open>otherProperties.operationName\<close> of \<open>null\<close> raises a
  \<open>TypeError\<close>.
\<close>

definition select_operation ::
  "operation_or_document \<Rightarrow> props option \<Rightarrow> error + operation option" where
  "select_operation operationOrDocument otherProperties =
     (case operationOrDocument of
        Op operation \<Rightarrow> Inr (Some operation)
      | Doc document \<Rightarrow>
          if length (operations document) = 1 then Inr (Some (hd (operations document)))
          else
            (case otherProperties of
               None \<Rightarrow> Inl TypeError
             | Some other \<Rightarrow>
                 if truthy (get_own other ''operationName'') then
                   Inr (array_find
                          (\<lambda>documentOperation.
                             strict_eq_prim (name_val (name documentOperation))
                               (get_own other ''operationName''))
                          (operations document))
                 else Inl (Error operationName_message)))"

text \<open>The callback of \<open>send\<close>: lines 163 to 170.\<close>

definition send_callback ::
  "deps \<Rightarrow> client \<Rightarrow> operation option \<Rightarrow> props option \<Rightarrow> response \<Rightarrow> event list \<times> response settled" where
  "send_callback d c operation vars response =
     (if truthy (get_own response ''data'') then
        (case decode d operation (get_own response ''data'') (classRegistry c) vars of
           Inl e \<Rightarrow> ([], Rejected e)
         | Inr model \<Rightarrow> ([SetModel response model], Resolved (set_own response ''model'' model)))
      else ([], Resolved response))"

text \<open>Lines 162 to 171 of \<open>send\<close>: \<open>this.fetcher(graphQLParams, headers).then(...)\<close>.\<close>

definition call_fetcher ::
  "deps \<Rightarrow> client \<Rightarrow> operation option \<Rightarrow> props option \<Rightarrow> props \<Rightarrow> props option \<Rightarrow>
   event list \<times> response settled outcome" where
  "call_fetcher d c operation vars params headers =
     (case fetcher c params headers of
        Threw e \<Rightarrow> ([FetcherCall params headers], Threw e)
      | Returned promise \<Rightarrow>
          (let (evs, result) = andThen promise (send_callback d c operation vars)
           in (FetcherCall params headers # evs, Returned result)))"

text \<open>
  \<open>send(request, variableValues = null, otherProperties = null, headers = null,
  inContextDirective = null)\<close>; \<open>headers\<close> is an object or \<open>null\<close>.
\<close>

definition send ::
  "deps \<Rightarrow> client \<Rightarrow> request \<Rightarrow> props option \<Rightarrow> props option \<Rightarrow> props option \<Rightarrow> val \<Rightarrow>
   event list \<times> response settled outcome" where
  "send d c request vars otherProperties headers inContextDirective =
     (case (case request of RequestFunction f \<Rightarrow> f c | RequestValue x \<Rightarrow> Returned x) of
        Threw e \<Rightarrow> ([], Threw e)
      | Returned operationOrDocument \<Rightarrow>
          (let params = graphQLParams d operationOrDocument vars otherProperties inContextDirective
           in
           case select_operation operationOrDocument otherProperties of
             Inl e \<Rightarrow> ([], Threw e)
           | Inr operation \<Rightarrow> call_fetcher d c operation vars params headers))"

subsection \<open>Reading a property of any value\<close>

definition digit_value :: "char \<Rightarrow> nat option" where
  "digit_value ch =
     (if CHR ''0'' \<le> ch \<and> ch \<le> CHR ''9'' then Some (of_char ch - of_char CHR ''0'') else None)"

text \<open>
  An array index as a property key: a decimal numeral without a leading zero.
\<close>

definition array_index :: "string \<Rightarrow> nat option" where
  "array_index k =
     (if k = [] \<or> (hd k = CHR ''0'' \<and> k \<noteq> ''0'') \<or> (\<exists>ch \<in> set k. digit_value ch = None) then None
      else Some (foldl (\<lambda>n ch. 10 * n + (case digit_value ch of Some v \<Rightarrow> v | None \<Rightarrow> 0)) 0 k))"

text \<open>
  \<open>object[key]\<close>: a \<open>TypeError\<close> on \<open>undefined\<close> and \<open>null\<close>; an own property otherwise, and
  \<open>undefined\<close> when there is none. For a model these are \<open>type\<close>, \<open>hasNextPage\<close>,
  \<open>variableValues\<close> and its decoded fields. Members inherited from a prototype and
  function-valued properties are not values of this model and read as \<open>undefined\<close>.
\<close>

fun get_prop :: "val \<Rightarrow> string \<Rightarrow> error + val" where
  "get_prop VUndefined k = Inl TypeError"
| "get_prop VNull k = Inl TypeError"
| "get_prop (VBool b) k = Inr VUndefined"
| "get_prop (VNum n) k = Inr VUndefined"
| "get_prop (VStr s) k =
     Inr (if k = ''length'' then VNum (int (length s))
          else (case array_index k of
                  Some i \<Rightarrow> if i < length s then VStr [s ! i] else VUndefined
                | None \<Rightarrow> VUndefined))"
| "get_prop (VArr xs) k =
     Inr (if k = ''length'' then VNum (int (length xs))
          else (case array_index k of
                  Some i \<Rightarrow> if i < length xs then xs ! i else VUndefined
                | None \<Rightarrow> VUndefined))"
| "get_prop (VObj ps) k = Inr (get_own ps k)"
| "get_prop (VModel m) k =
     Inr (if k = ''type'' then
            VObj [(''name'', VStr (type_name (model_type m))),
                  (''implementsNode'', VBool (implementsNode (model_type m)))]
          else if k = ''hasNextPage'' then model_hasNextPage m
          else if k = ''variableValues'' then
            (case model_variableValues m of None \<Rightarrow> VUndefined | Some vs \<Rightarrow> VObj vs)
          else get_own (model_attrs m) k)"

subsection \<open>fetchNextPage\<close>

text \<open>\<open>path.reduce((object, key) => object[key], start)\<close>.\<close>

fun reduce_path :: "string list \<Rightarrow> val \<Rightarrow> error + val" where
  "reduce_path [] object = Inr object"
| "reduce_path (key # path) object =
     (case get_prop object key of Inl e \<Rightarrow> Inl e | Inr v \<Rightarrow> reduce_path path v)"

definition fetchNextPage_callback :: "string list \<Rightarrow> response \<Rightarrow> event list \<times> response settled" where
  "fetchNextPage_callback path response =
     (case reduce_path path (get_own response ''model'') of
        Inl e \<Rightarrow> ([], Rejected e)
      | Inr v \<Rightarrow> ([SetModel response v], Resolved (set_own response ''model'' v)))"

text \<open>
  \<open>fetchNextPage(nodeOrNodes, options)\<close>; \<open>options\<close> is an object or \<open>undefined\<close>. The last
  element of an empty array is \<open>undefined\<close>. Calling \<open>nextPageQueryAndPath\<close> on anything but a
  model raises a \<open>TypeError\<close>. The query is sent with the default \<open>null\<close> for the other
  arguments of \<open>send\<close>.
\<close>

definition fetchNextPage ::
  "deps \<Rightarrow> client \<Rightarrow> val \<Rightarrow> props option \<Rightarrow> event list \<times> response settled outcome" where
  "fetchNextPage d c nodeOrNodes options' =
     (let node = (case nodeOrNodes of
                    VArr nodes \<Rightarrow> if nodes = [] then VUndefined else last nodes
                  | _ \<Rightarrow> nodeOrNodes)
      in
      case node of
        VModel m \<Rightarrow>
          (case model_nextPageQueryAndPath m of
             Inl e \<Rightarrow> ([], Threw e)
           | Inr (query, path) \<Rightarrow>
               (let vars =
                      (if model_variableValues m \<noteq> None \<or> options' \<noteq> None
                       then Some (object_assign (object_assign [] (model_variableValues m)) options')
                       else None)
                in
                case send d c (RequestValue (Op query)) vars None None VNull of
                  (evs, Threw e) \<Rightarrow> (evs, Threw e)
                | (evs, Returned promise) \<Rightarrow>
                    (let (evs', result) = andThen promise (fetchNextPage_callback path)
                     in (evs @ evs', Returned result))))
      | _ \<Rightarrow> ([], Threw TypeError))"

subsection \<open>fetchAllPages\<close>

text \<open>
  \<open>hasNextPage(paginatedModels)\<close> for an array: the array itself is truthy, so the result is
  its length when that is \<open>0\<close>, and \<open>hasNextPage\<close> of the last element otherwise.
\<close>

definition hasNextPage :: "val list \<Rightarrow> error + val" where
  "hasNextPage paginatedModels =
     (if length paginatedModels = 0 then Inr (VNum 0)
      else get_prop (last paginatedModels) ''hasNextPage'')"

text \<open>\<open>array.concat(v)\<close>: the elements of \<open>v\<close> when it is an array, \<open>v\<close> itself otherwise.\<close>

definition array_concat :: "val list \<Rightarrow> val \<Rightarrow> val list" where
  "array_concat xs v = (case v of VArr ys \<Rightarrow> xs @ ys | _ \<Rightarrow> xs @ [v])"

text \<open>
  The body of \<open>fetchAllPages(paginatedModels, {pageSize})\<close>, with the recursive call
  \<open>this.fetchAllPages(pages, {pageSize})\<close> as the parameter \<open>recur\<close>. A call that raises inside
  the callback of \<open>then\<close> rejects the promise. \<open>None\<close> is a chain of pages that has not ended.
\<close>

definition fetchAllPages_body ::
  "(val list \<Rightarrow> (event list \<times> val list settled outcome) option) \<Rightarrow>
   deps \<Rightarrow> client \<Rightarrow> val list \<Rightarrow> val \<Rightarrow> (event list \<times> val list settled outcome) option" where
  "fetchAllPages_body recur d c paginatedModels pageSize =
     (case hasNextPage paginatedModels of
        Inl e \<Rightarrow> Some ([], Threw e)
      | Inr next \<Rightarrow>
          if truthy next then
            (case fetchNextPage d c (VArr paginatedModels) (Some [(''first'', pageSize)]) of
               (evs, Threw e) \<Rightarrow> Some (evs, Threw e)
             | (evs, Returned (Rejected e)) \<Rightarrow> Some (evs, Returned (Rejected e))
             | (evs, Returned (Resolved response)) \<Rightarrow>
                 (let pages = array_concat paginatedModels (get_own response ''model'') in
                  case recur pages of
                    None \<Rightarrow> None
                  | Some (evs', Threw e) \<Rightarrow> Some (evs @ evs', Returned (Rejected e))
                  | Some (evs', Returned result) \<Rightarrow> Some (evs @ evs', Returned result)))
          else Some ([], Returned (Resolved paginatedModels)))"

text \<open>
  The recursion of \<open>fetchAllPages\<close> goes on for as long as the transport reports a next
  page, so it is bounded here by the number of further calls of itself that it may make.
\<close>

fun fetchAllPages ::
  "nat \<Rightarrow> deps \<Rightarrow> client \<Rightarrow> val list \<Rightarrow> val \<Rightarrow> (event list \<times> val list settled outcome) option" where
  "fetchAllPages 0 d c paginatedModels pageSize =
     fetchAllPages_body (\<lambda>pages. None) d c paginatedModels pageSize"
| "fetchAllPages (Suc n) d c paginatedModels pageSize =
     fetchAllPages_body (\<lambda>pages. fetchAllPages n d c pages pageSize) d c paginatedModels pageSize"

subsection \<open>refetch\<close>

definition refetch_null_message :: string where
  "refetch_null_message =
     [CHR 0x27] @ ''client#refetch'' @ [CHR 0x27] @
     '' must be called with a non-null instance of a Node.''"

definition refetch_type_message :: "string \<Rightarrow> string" where
  "refetch_type_message typeName =
     [CHR 0x27] @ ''client#refetch'' @ [CHR 0x27] @
     '' must be called with a type that implements Node. Received '' @ typeName @ ''.''"

definition refetch_callback :: "response \<Rightarrow> event list \<times> val settled" where
  "refetch_callback response =
     (case get_prop (get_own response ''model'') ''node'' of
        Inl e \<Rightarrow> ([], Rejected e)
      | Inr node \<Rightarrow> ([], Resolved node))"

text \<open>
  \<open>refetch(nodeType)\<close>; the argument is a model, or \<open>null\<close> or \<open>undefined\<close> (\<open>None\<close>).
\<close>

definition refetch ::
  "deps \<Rightarrow> client \<Rightarrow> val graph_model option \<Rightarrow> event list \<times> val settled outcome" where
  "refetch d c nodeType =
     (case nodeType of
        None \<Rightarrow> ([], Threw (Error refetch_null_message))
      | Some m \<Rightarrow>
          if \<not> implementsNode (model_type m) then
            ([], Threw (Error (refetch_type_message (type_name (model_type m)))))
          else
            (case model_refetchQuery m of
               Inl e \<Rightarrow> ([], Threw e)
             | Inr query \<Rightarrow>
                 (case send d c (RequestValue (Op query)) None None None VNull of
                    (evs, Threw e) \<Rightarrow> (evs, Threw e)
                  | (evs, Returned promise) \<Rightarrow>
                      (let (evs', result) = andThen promise refetch_callback
                       in (evs @ evs', Returned result)))))"

section \<open>The type dependency tracker\<close>

text \<open>
  Modelled from the spec: the module \<open>track-type-dependency\<close> is not part of the sources at
  hand (its test suite is). Section 4.4 of the specification describes a process-wide
  recorder: whether it is recording, and the type names observed since the last reset.
\<close>

record tracker =
  recording :: bool
  observed :: "string list"

definition initial_tracker :: tracker where
  "initial_tracker = \<lparr>recording = False, observed = []\<rparr>"

text \<open>Modelled from the spec: \<open>startTracking()\<close> enables recording (a no-op when active).\<close>

definition startTracking :: "tracker \<Rightarrow> tracker" where
  "startTracking t = t\<lparr>recording := True\<rparr>"

text \<open>
  Modelled from the spec: \<open>pauseTracking()\<close> disables recording without clearing the
  accumulated state.
\<close>

definition pauseTracking :: "tracker \<Rightarrow> tracker" where
  "pauseTracking t = t\<lparr>recording := False\<rparr>"

text \<open>
  Modelled from the spec: \<open>resetTracker()\<close> clears the accumulated state and disables
  recording (the pristine initial state).
\<close>

definition resetTracker :: "tracker \<Rightarrow> tracker" where
  "resetTracker t = initial_tracker"

text \<open>
  Modelled from the spec: \<open>trackedTypes()\<close> returns the deduplicated, sorted sequence of the
  type names observed since the last reset. Strings are ordered lexicographically by
  character code.
\<close>

definition trackedTypes :: "tracker \<Rightarrow> string list" where
  "trackedTypes t = sort (remdups (observed t))"

text \<open>
  Modelled from the spec: the hook through which the builder reports a type name; it is
  recorded if the tracker is active.
\<close>

definition trackTypeDependency :: "string \<Rightarrow> tracker \<Rightarrow> tracker" where
  "trackTypeDependency typeName t =
     (if recording t then t\<lparr>observed := observed t @ [typeName]\<rparr> else t)"

text \<open>
  Modelled from the spec: building a query touches the tracker only by reporting type names
  (the type of each scope and the return type of each field traversed, section 4.1), so a
  build is represented by the sequence of type names it reports.
\<close>

definition build :: "string list \<Rightarrow> tracker \<Rightarrow> tracker" where
  "build typeNames t = foldl (\<lambda>t' typeName. trackTypeDependency typeName t') t typeNames"

datatype tracker_step = StartTracking | PauseTracking | ResetTracker | Build "string list"

fun step :: "tracker_step \<Rightarrow> tracker \<Rightarrow> tracker" where
  "step StartTracking t = startTracking t"
| "step PauseTracking t = pauseTracking t"
| "step ResetTracker t = resetTracker t"
| "step (Build typeNames) t = build typeNames t"

definition run :: "tracker_step list \<Rightarrow> tracker \<Rightarrow> tracker" where
  "run steps t = foldl (\<lambda>t' s. step s t') t steps"

section \<open>The serializer\<close>

text \<open>
  Modelled from the spec: \<open>toString\<close> of an operation is not part of the sources at hand.
  Section 4.3 of the specification: the operation keyword, the name, the parenthesized list
  of variables (name, type, default), and braces around the recursively rendered selection
  set; arguments as \<open>name: value\<close>, a variable reference as \<open>$name\<close>, an enum value as a bare
  identifier, strings and scalars JSON-encoded; an inline fragment as
  \<open>... on ConcreteType { ... }\<close>; an optional directive context appended as a directive.
  It is the rendering used in the concrete inputs below; the facts about the client hold for
  every rendering, which the client takes as a parameter.
\<close>

fun decimal :: "nat \<Rightarrow> string" where
  "decimal n = (if n < 10 then [char_of (48 + n)] else decimal (n div 10) @ [char_of (48 + n mod 10)])"

definition json_string :: "string \<Rightarrow> string" where
  "json_string s =
     [CHR 0x22] @
     concat (map (\<lambda>ch. if ch = CHR 0x22 \<or> ch = CHR 0x5C then [CHR 0x5C, ch] else [ch]) s) @
     [CHR 0x22]"

fun render_value :: "arg_value \<Rightarrow> string" where
  "render_value (VariableRef v) = ''$'' @ v"
| "render_value (EnumValue e) = e"
| "render_value (StringValue s) = json_string s"
| "render_value (IntValue i) = (if i < 0 then ''-'' @ decimal (nat (- i)) else decimal (nat i))"
| "render_value (BoolValue b) = (if b then ''true'' else ''false'')"
| "render_value NullValue = ''null''"

fun join :: "string \<Rightarrow> string list \<Rightarrow> string" where
  "join sep [] = []"
| "join sep [x] = x"
| "join sep (x # y # ys) = x @ sep @ join sep (y # ys)"

definition render_arguments :: "(string \<times> arg_value) list \<Rightarrow> string" where
  "render_arguments args =
     (if args = [] then []
      else ''('' @ join '', '' (map (\<lambda>(k, v). k @ '': '' @ render_value v) args) @ '')'')"

fun render_selection :: "selection \<Rightarrow> string" where
  "render_selection (FieldSelection fieldName alias args nested) =
     (case alias of None \<Rightarrow> [] | Some a \<Rightarrow> a @ '': '') @ fieldName @ render_arguments args @
     (case nested of
        None \<Rightarrow> []
      | Some sels \<Rightarrow> '' { '' @ join '' '' (map render_selection sels) @ '' }'')"
| "render_selection (FragmentSelection typeName sels) =
     ''... on '' @ typeName @ '' { '' @ join '' '' (map render_selection sels) @ '' }''"

definition render_variable :: "variable_definition \<Rightarrow> string" where
  "render_variable v =
     ''$'' @ variableName v @ '': '' @ declaredType v @
     (case defaultValue v of None \<Rightarrow> [] | Some dv \<Rightarrow> '' = '' @ render_value dv)"

definition render_operation :: "operation \<Rightarrow> string option \<Rightarrow> string" where
  "render_operation operation directive =
     (case kind operation of Query \<Rightarrow> ''query'' | Mutation \<Rightarrow> ''mutation'') @
     (case name operation of None \<Rightarrow> [] | Some n \<Rightarrow> '' '' @ n) @
     (if variableDefinitions operation = [] then []
      else '' ('' @ join '', '' (map render_variable (variableDefinitions operation)) @ '')'') @
     (case directive of None \<Rightarrow> [] | Some dir \<Rightarrow> '' @'' @ dir) @
     '' { '' @ join '' '' (map render_selection (selectionSet operation)) @ '' }''"

section \<open>Concrete inputs\<close>

definition example_operation :: "string \<Rightarrow> operation" where
  "example_operation n =
     \<lparr>kind = Query, name = Some n, variableDefinitions = [],
      selectionSet = [FieldSelection ''shop'' None [] (Some [FieldSelection ''name'' None [] None])]\<rparr>"

definition example_document :: document where
  "example_document = \<lparr>operations = [example_operation ''first'', example_operation ''second'']\<rparr>"

definition example_response :: response where
  "example_response = [(''data'', VObj [(''shop'', VObj [(''name'', VStr ''Snowdevil'')])])]"

definition example_errors_response :: response where
  "example_errors_response = [(''errors'', VArr [VObj [(''message'', VStr ''Throttled'')]])]"

definition example_type :: "bool \<Rightarrow> type_descriptor" where
  "example_type node = \<lparr>type_name = ''Product'', implementsNode = node\<rparr>"

text \<open>A model with the given type, decoded fields and \<open>hasNextPage\<close>.\<close>

definition example_model :: "bool \<Rightarrow> props \<Rightarrow> val \<Rightarrow> val graph_model" where
  "example_model node decoded nextPage =
     GraphModel (example_type node) decoded nextPage None
       (Inr (example_operation ''nextPage'', [''shop'', ''products'']))
       (Inr (example_operation ''refetch''))"

definition example_deps :: deps where
  "example_deps =
     \<lparr>toString = (\<lambda>x directive. case x of
                     Op operation \<Rightarrow> render_operation operation None
                   | Doc document \<Rightarrow> join '' '' (map (\<lambda>operation. render_operation operation None)
                                                    (operations document))),
      decode = (\<lambda>operation data reg vars.
                  case operation of
                    None \<Rightarrow> Inl TypeError
                  | Some _ \<Rightarrow> Inr (VModel (example_model False [(''node'', data)] VUndefined))),
      httpFetcher = (\<lambda>u fetcherOpts params headers. Returned (Resolved example_response))\<rparr>"

definition example_client :: "response \<Rightarrow> client" where
  "example_client response =
     \<lparr>typeBundle = [], classRegistry = new_ClassRegistry,
      fetcher = (\<lambda>params headers. Returned (Resolved response))\<rparr>"

definition example_nodes :: "val list" where
  "example_nodes = [VModel (example_model True [(''handle'', VStr ''a'')] (VBool False)),
                    VModel (example_model True [(''handle'', VStr ''b'')] (VBool True))]"

definition example_pages :: "val list" where
  "example_pages = [VModel (example_model True [(''handle'', VStr ''a'')] (VBool True)),
                    VModel (example_model True [(''handle'', VStr ''b'')] (VBool False))]"

definition example_options :: "string option \<Rightarrow> props option \<Rightarrow> fetcher option \<Rightarrow> options" where
  "example_options u fetcherOpts f =
     \<lparr>opt_url = u, opt_fetcherOptions = fetcherOpts, opt_fetcher = f, opt_registry = None\<rparr>"

text \<open>
  An option of the constructor counts as supplied when the constructor's test of it
  succeeds: a \<open>url\<close> that is a non-empty string, a \<open>fetcher\<close> that is a function.
\<close>

definition url_supplied :: "options \<Rightarrow> bool" where
  "url_supplied opts = (case opt_url opts of None \<Rightarrow> False | Some u \<Rightarrow> truthy (VStr u))"

definition fetcher_supplied :: "options \<Rightarrow> bool" where
  "fetcher_supplied opts = (opt_fetcher opts \<noteq> None)"

section \<open>Auxiliary facts\<close>

lemma strict_eq_prim_name_val: "strict_eq_prim (name_val n) v = (v = name_val n)"
  by (cases n) (auto simp: name_val_def)

lemma array_find_None: "(\<forall>x \<in> set xs. \<not> p x) \<Longrightarrow> array_find p xs = None"
  by (induction xs) auto

lemma get_own_set_own: "get_own (set_own ps k v) k = v"
  by (induction ps k v rule: set_own.induct) (auto simp: get_own_def)

lemma send_resolved:
  assumes "(case request of RequestFunction f \<Rightarrow> f c | RequestValue x \<Rightarrow> Returned x) = Returned x"
    and "select_operation x other = Inr operation"
    and "fetcher c (graphQLParams d x vars other ctx) headers = Returned (Resolved response)"
  shows "send d c request vars other headers ctx =
         (let (evs, result) = send_callback d c operation vars response
          in (FetcherCall (graphQLParams d x vars other ctx) headers # evs, Returned result))"
  using assms by (simp add: send_def call_fetcher_def andThen_def)

lemma fetchAllPages_stop:
  "hasNextPage xs = Inr v \<Longrightarrow> \<not> truthy v \<Longrightarrow>
   fetchAllPages n d c xs ps = Some ([], Returned (Resolved xs))"
  by (cases n) (simp_all add: fetchAllPages_body_def)

lemma build_not_recording: "\<not> recording t \<Longrightarrow> build typeNames t = t"
  by (induction typeNames) (simp_all add: build_def trackTypeDependency_def)

lemma build_recording:
  "recording t \<Longrightarrow> build typeNames t = t\<lparr>observed := observed t @ typeNames\<rparr>"
proof (induction typeNames arbitrary: t)
  case Nil
  then show ?case by (simp add: build_def)
next
  case (Cons a typeNames)
  have "build (a # typeNames) t = build typeNames (trackTypeDependency a t)"
    by (simp add: build_def)
  also have "\<dots> = (trackTypeDependency a t)
                 \<lparr>observed := observed (trackTypeDependency a t) @ typeNames\<rparr>"
    using Cons.prems by (intro Cons.IH) (simp add: trackTypeDependency_def)
  finally show ?case using Cons.prems by (simp add: trackTypeDependency_def)
qed

lemma step_quiet:
  "s \<noteq> StartTracking \<Longrightarrow> \<not> recording t \<Longrightarrow> observed t = [] \<Longrightarrow>
   \<not> recording (step s t) \<and> observed (step s t) = []"
  by (cases s)
    (simp_all add: pauseTracking_def resetTracker_def initial_tracker_def build_not_recording)

lemma run_quiet:
  "StartTracking \<notin> set steps \<Longrightarrow> \<not> recording t \<Longrightarrow> observed t = [] \<Longrightarrow>
   \<not> recording (run steps t) \<and> observed (run steps t) = []"
proof (induction steps arbitrary: t)
  case Nil
  then show ?case by (simp add: run_def)
next
  case (Cons s steps)
  have "run (s # steps) t = run steps (step s t)" by (simp add: run_def)
  moreover have "\<not> recording (step s t) \<and> observed (step s t) = []"
    using Cons.prems by (intro step_quiet) auto
  ultimately show ?case using Cons.IH [of "step s t"] Cons.prems(1) by simp
qed

lemma run_builds_paused: "\<not> recording t \<Longrightarrow> run (map Build builds) t = t"
  by (induction builds) (simp_all add: run_def build_not_recording)

text \<open>
  The sequence returned by \<open>trackedTypes\<close> is sorted and without duplicates, and depends only
  on which names were observed, not on their order or number.
\<close>

lemma trackedTypes_sorted_distinct: "sorted (trackedTypes t) \<and> distinct (trackedTypes t)"
  by (simp add: trackedTypes_def)

lemma trackedTypes_order_independent:
  assumes "set (observed t) = set (observed t')"
  shows "trackedTypes t = trackedTypes t'"
proof -
  have "set (trackedTypes t) = set (trackedTypes t')"
    using assms by (simp add: trackedTypes_def)
  then show ?thesis
    using trackedTypes_sorted_distinct [of t] trackedTypes_sorted_distinct [of t']
    by (intro sorted_distinct_set_unique) simp_all
qed

text \<open>
  The first scenario of the specification, and the test of \<open>pauseTracking\<close> in the tracker's
  suite, with names the builds report.
\<close>

lemma trackedTypes_shop_name:
  "trackedTypes (run [StartTracking, Build [''QueryRoot'', ''Shop'', ''String'']] initial_tracker)
   = [''QueryRoot'', ''Shop'', ''String'']"
  by (simp add: run_def build_def trackTypeDependency_def startTracking_def initial_tracker_def
      trackedTypes_def less_char_def less_eq_char_def)

lemma trackedTypes_pause_test:
  "trackedTypes
     (run [StartTracking, Build [''QueryRoot'', ''Shop'', ''String''], PauseTracking,
           Build [''QueryRoot'', ''Shop'', ''String'', ''ProductConnection'', ''Product''],
           StartTracking, Build [''QueryRoot'', ''Node'', ''ID'']] initial_tracker)
   = [''ID'', ''Node'', ''QueryRoot'', ''Shop'', ''String'']"
  by (simp add: run_def build_def trackTypeDependency_def startTracking_def pauseTracking_def
      initial_tracker_def trackedTypes_def less_char_def less_eq_char_def)

text \<open>
  An empty \<open>url\<close> string fails the constructor's test \<open>if (url)\<close>: with a \<open>fetcher\<close> the
  construction succeeds and uses the fetcher, without one it fails.
\<close>

lemma constructor_empty_url:
  "constructor d bundle
     \<lparr>opt_url = Some [], opt_fetcherOptions = None, opt_fetcher = Some f, opt_registry = Some reg\<rparr>
   = Inr \<lparr>typeBundle = bundle, classRegistry = reg, fetcher = f\<rparr>
   \<and> constructor d bundle
       \<lparr>opt_url = Some [], opt_fetcherOptions = None, opt_fetcher = None, opt_registry = Some reg\<rparr>
     = Inl (Error url_or_fetcher_needed_message)"
  by (simp add: constructor_def)

section \<open>The claims\<close>

subsection \<open>C1\<close>

lemma send_document_without_operationName:
  "length (operations doc) \<noteq> 1 \<Longrightarrow> \<not> truthy (get_own other ''operationName'') \<Longrightarrow>
   send d c (RequestValue (Doc doc)) vars (Some other) headers ctx =
     ([], Threw (Error operationName_message))"
  by (simp add: send_def select_operation_def)

text \<open>
  C1. A document with two or more operations sent without an \<open>operationName\<close> should fail
  with the descriptive error before the transport is called. When \<open>otherProperties\<close> is an
  object without a truthy \<open>operationName\<close> this is what happens
  (\<open>send_document_without_operationName\<close>). When \<open>otherProperties\<close> is left at its default
  \<open>null\<close>, as in \<open>client.send(document)\<close>, reading \<open>otherProperties.operationName\<close> raises a
  \<open>TypeError\<close> instead: the call still fails before the transport is called, but not with the
  descriptive error.
\<close>

theorem send_two_operations_default_otherProperties:
  "send d c (RequestValue (Doc \<lparr>operations = [example_operation ''first'', example_operation ''second'']\<rparr>))
     None None None VNull = ([], Threw TypeError)
   \<and> send d c (RequestValue (Doc \<lparr>operations = [example_operation ''first'', example_operation ''second'']\<rparr>))
       None None None VNull \<noteq> ([], Threw (Error operationName_message))"
  by (simp add: send_def select_operation_def)

subsection \<open>C2\<close>

text \<open>
  C2. For a document with two or more operations and a truthy \<open>operationName\<close> that is the
  name of none of them, the lookup yields \<open>undefined\<close>; \<open>send\<close> raises nothing itself (it
  raises only if the transport raises when called) and goes on to call the transport, with
  no operation selected for the decoder.
\<close>

theorem send_unmatched_operationName:
  assumes "2 \<le> length (operations doc)"
    and "truthy (get_own other ''operationName'')"
    and "\<forall>operation \<in> set (operations doc).
           name_val (name operation) \<noteq> get_own other ''operationName''"
  shows "select_operation (Doc doc) (Some other) = Inr None
    \<and> send d c (RequestValue (Doc doc)) vars (Some other) headers ctx =
         call_fetcher d c None vars (graphQLParams d (Doc doc) vars (Some other) ctx) headers
    \<and> (\<exists>evs result. send d c (RequestValue (Doc doc)) vars (Some other) headers ctx =
         (FetcherCall (graphQLParams d (Doc doc) vars (Some other) ctx) headers # evs, result))
    \<and> (\<forall>e. snd (send d c (RequestValue (Doc doc)) vars (Some other) headers ctx) = Threw e \<longrightarrow>
           fetcher c (graphQLParams d (Doc doc) vars (Some other) ctx) headers = Threw e)"
proof -
  have "array_find (\<lambda>documentOperation. strict_eq_prim (name_val (name documentOperation))
           (get_own other ''operationName'')) (operations doc) = None"
    using assms(3) by (intro array_find_None) (auto simp: strict_eq_prim_name_val)
  then have sel: "select_operation (Doc doc) (Some other) = Inr None"
    using assms(1,2) by (simp add: select_operation_def)
  then have s: "send d c (RequestValue (Doc doc)) vars (Some other) headers ctx =
         call_fetcher d c None vars (graphQLParams d (Doc doc) vars (Some other) ctx) headers"
    by (simp add: send_def)
  have "\<exists>evs result. send d c (RequestValue (Doc doc)) vars (Some other) headers ctx =
         (FetcherCall (graphQLParams d (Doc doc) vars (Some other) ctx) headers # evs, result)"
    unfolding s by (auto simp: call_fetcher_def split: outcome.splits prod.splits)
  moreover have "\<forall>e. snd (send d c (RequestValue (Doc doc)) vars (Some other) headers ctx) = Threw e \<longrightarrow>
           fetcher c (graphQLParams d (Doc doc) vars (Some other) ctx) headers = Threw e"
    unfolding s by (auto simp: call_fetcher_def split: outcome.splits prod.splits)
  ultimately show ?thesis using sel s by blast
qed

theorem send_unmatched_operationName_witness:
  "2 \<le> length (operations example_document)
   \<and> truthy (get_own [(''operationName'', VStr ''third'')] ''operationName'')
   \<and> map (\<lambda>operation. name_val (name operation)) (operations example_document)
       = [VStr ''first'', VStr ''second'']
   \<and> get_own [(''operationName'', VStr ''third'')] ''operationName'' = VStr ''third''
   \<and> send example_deps (example_client example_response) (RequestValue (Doc example_document)) None
        (Some [(''operationName'', VStr ''third'')]) None VNull =
       ([FetcherCall [(''query'', VStr ''query first { shop { name } } query second { shop { name } }''),
                      (''operationName'', VStr ''third'')] None],
        Returned (Rejected TypeError))"
proof -
  have h1: "2 \<le> length (operations example_document)"
    by (simp add: example_document_def)
  have h2: "truthy (get_own [(''operationName'', VStr ''third'')] ''operationName'')"
    by (simp add: get_own_def)
  have h3: "\<forall>operation \<in> set (operations example_document).
         name_val (name operation) \<noteq> get_own [(''operationName'', VStr ''third'')] ''operationName''"
    by (simp add: example_document_def example_operation_def get_own_def name_val_def)
  from send_unmatched_operationName
         [OF h1 h2 h3, of example_deps "example_client example_response" None None VNull]
  have "send example_deps (example_client example_response) (RequestValue (Doc example_document)) None
          (Some [(''operationName'', VStr ''third'')]) None VNull =
        call_fetcher example_deps (example_client example_response) None None
          (graphQLParams example_deps (Doc example_document) None
             (Some [(''operationName'', VStr ''third'')]) VNull) None"
    by blast
  also have "\<dots> =
       ([FetcherCall [(''query'', VStr ''query first { shop { name } } query second { shop { name } }''),
                      (''operationName'', VStr ''third'')] None],
        Returned (Rejected TypeError))"
    by (simp add: call_fetcher_def graphQLParams_def object_assign_def andThen_def send_callback_def
          get_own_def example_deps_def example_client_def example_document_def example_operation_def
          example_response_def render_operation_def render_arguments_def)
  finally show ?thesis using h1 h2
    by (simp add: example_document_def example_operation_def get_own_def name_val_def)
qed

subsection \<open>C3\<close>

text \<open>
  C3. When the transport resolves with a response: if \<open>response.data\<close> is not truthy, the
  promise of \<open>send\<close> resolves with the response as it is, nothing is assigned to it, and this
  holds whatever the decoder would do; if it is truthy and the decoder returns a model, the
  response is resolved with that model as its \<open>model\<close> property. So a response that \<open>send\<close>
  resolves with has had a model attached exactly when its \<open>data\<close> was truthy.
\<close>

theorem send_model_iff_data:
  assumes "(case request of RequestFunction f \<Rightarrow> f c | RequestValue x \<Rightarrow> Returned x) = Returned x"
    and "select_operation x other = Inr operation"
    and "fetcher c (graphQLParams d x vars other ctx) headers = Returned (Resolved response)"
  shows "(\<not> truthy (get_own response ''data'') \<longrightarrow>
           send d c request vars other headers ctx =
             ([FetcherCall (graphQLParams d x vars other ctx) headers], Returned (Resolved response)))
       \<and> (truthy (get_own response ''data'') \<longrightarrow>
           (\<forall>model. decode d operation (get_own response ''data'') (classRegistry c) vars = Inr model \<longrightarrow>
              send d c request vars other headers ctx =
                ([FetcherCall (graphQLParams d x vars other ctx) headers, SetModel response model],
                 Returned (Resolved (set_own response ''model'' model)))))
       \<and> (\<forall>evs response'.
             send d c request vars other headers ctx = (evs, Returned (Resolved response')) \<longrightarrow>
             ((\<exists>model. SetModel response model \<in> set evs) \<longleftrightarrow> truthy (get_own response ''data'')))"
  unfolding send_resolved [OF assms]
  by (auto simp: send_callback_def split: sum.splits)

theorem send_model_iff_data_witness:
  "\<not> truthy (get_own example_errors_response ''data'')
   \<and> send example_deps (example_client example_errors_response)
        (RequestValue (Op (example_operation ''first''))) None None None VNull =
       ([FetcherCall [(''query'', VStr ''query first { shop { name } }'')] None],
        Returned (Resolved example_errors_response))
   \<and> truthy (get_own example_response ''data'')
   \<and> send example_deps (example_client example_response)
        (RequestValue (Op (example_operation ''first''))) None None None VNull =
       ([FetcherCall [(''query'', VStr ''query first { shop { name } }'')] None,
         SetModel example_response
           (VModel (example_model False [(''node'', get_own example_response ''data'')] VUndefined))],
        Returned (Resolved (example_response @
           [(''model'',
             VModel (example_model False [(''node'', get_own example_response ''data'')] VUndefined))])))"
proof -
  have q: "graphQLParams example_deps (Op (example_operation ''first'')) None None VNull =
           [(''query'', VStr ''query first { shop { name } }'')]"
    by (simp add: graphQLParams_def object_assign_def example_deps_def example_operation_def
          render_operation_def render_arguments_def)
  have s: "select_operation (Op (example_operation ''first'')) None
           = Inr (Some (example_operation ''first''))"
    by (simp add: select_operation_def)
  have r: "(case RequestValue (Op (example_operation ''first'')) of
              RequestFunction f \<Rightarrow> f c | RequestValue x \<Rightarrow> Returned x)
           = Returned (Op (example_operation ''first''))" for c
    by simp
  have f: "fetcher (example_client response)
             (graphQLParams example_deps (Op (example_operation ''first'')) None None VNull) None
           = Returned (Resolved response)" for response
    by (simp add: example_client_def)
  have e: "\<not> truthy (get_own example_errors_response ''data'')"
    by (simp add: get_own_def example_errors_response_def)
  have t: "truthy (get_own example_response ''data'')"
    by (simp add: get_own_def example_response_def)
  have m: "decode example_deps (Some (example_operation ''first'')) (get_own example_response ''data'')
             (classRegistry (example_client example_response)) None
           = Inr (VModel (example_model False [(''node'', get_own example_response ''data'')] VUndefined))"
    by (simp add: example_deps_def)
  have u: "set_own example_response ''model'' v = example_response @ [(''model'', v)]" for v
    by (simp add: example_response_def)
  show ?thesis
    using send_model_iff_data [OF r s f, of example_errors_response]
      send_model_iff_data [OF r s f, of example_response] e t m
    unfolding q u by simp
qed

subsection \<open>C5\<close>

text \<open>
  C5. After any sequence of tracker operations and builds, from any state, \<open>resetTracker()\<close>
  leaves \<open>trackedTypes()\<close> empty and recording disabled; and whatever is then done that does
  not include \<open>startTracking()\<close> (builds in particular) records nothing.
\<close>

theorem resetTracker_clears_and_disables:
  "trackedTypes (resetTracker (run steps t)) = []
   \<and> \<not> recording (resetTracker (run steps t))
   \<and> (StartTracking \<notin> set later \<longrightarrow>
        trackedTypes (run later (resetTracker (run steps t))) = []
        \<and> \<not> recording (run later (resetTracker (run steps t))))"
proof -
  have r: "\<not> recording (resetTracker (run steps t))" "observed (resetTracker (run steps t)) = []"
    by (simp_all add: resetTracker_def initial_tracker_def)
  show ?thesis using r run_quiet [of later "resetTracker (run steps t)"]
    by (simp add: trackedTypes_def)
qed

theorem resetTracker_clears_and_disables_witness:
  "StartTracking \<notin> set [Build [''QueryRoot'', ''Shop'', ''String'']]
   \<and> trackedTypes (run [StartTracking, Build [''QueryRoot'', ''Shop'', ''String'']] initial_tracker)
       = [''QueryRoot'', ''Shop'', ''String'']
   \<and> trackedTypes (resetTracker
        (run [StartTracking, Build [''QueryRoot'', ''Shop'', ''String'']] initial_tracker)) = []
   \<and> trackedTypes (run [Build [''QueryRoot'', ''Shop'', ''String'']]
        (resetTracker (run [StartTracking] initial_tracker))) = []"
  using resetTracker_clears_and_disables
          [of "[StartTracking, Build [''QueryRoot'', ''Shop'', ''String'']]" initial_tracker "[]"]
    resetTracker_clears_and_disables
          [of "[StartTracking]" initial_tracker "[Build [''QueryRoot'', ''Shop'', ''String'']]"]
  by (simp add: run_def build_def trackTypeDependency_def startTracking_def initial_tracker_def
      trackedTypes_def less_char_def less_eq_char_def)

subsection \<open>C6\<close>

text \<open>
  C6. From any tracker state, after \<open>pauseTracking()\<close> any number of builds leave
  \<open>trackedTypes()\<close> as it was before the pause; after a following \<open>startTracking()\<close> a build
  adds the names it reports to the names accumulated before the pause, so that
  \<open>trackedTypes()\<close> then holds exactly the earlier names and the new ones.
\<close>

theorem pauseTracking_keeps_trackedTypes:
  "trackedTypes (run (map Build builds) (pauseTracking t)) = trackedTypes t
   \<and> observed (build typeNames (startTracking (run (map Build builds) (pauseTracking t))))
       = observed t @ typeNames
   \<and> set (trackedTypes (build typeNames (startTracking (run (map Build builds) (pauseTracking t)))))
       = set (trackedTypes t) \<union> set typeNames"
proof -
  have p: "run (map Build builds) (pauseTracking t) = pauseTracking t"
    by (rule run_builds_paused) (simp add: pauseTracking_def)
  have b: "build typeNames (startTracking (pauseTracking t))
           = (startTracking (pauseTracking t))
               \<lparr>observed := observed (startTracking (pauseTracking t)) @ typeNames\<rparr>"
    by (rule build_recording) (simp add: startTracking_def)
  show ?thesis unfolding p b
    by (simp add: trackedTypes_def pauseTracking_def startTracking_def)
qed

subsection \<open>C7\<close>

text \<open>
  C7. \<open>refetch\<close> called with \<open>null\<close> or \<open>undefined\<close>, or with a model whose type does not
  implement Node, raises an error with a descriptive message and has no effect: the
  transport is not called. For a model whose type implements Node it sends the model's
  refetch query; when the transport resolves with a response that has data and the decoder
  returns a new model, the promise resolves with the \<open>node\<close> field of the new model. The
  only assignment made is \<open>response.model\<close> on the transport's response: the model passed in
  is read, never written.
\<close>

theorem refetch_errors_and_result:
  "refetch d c None = ([], Threw (Error refetch_null_message))
   \<and> (\<not> implementsNode (model_type m) \<longrightarrow>
        refetch d c (Some m) =
          ([], Threw (Error (refetch_type_message (type_name (model_type m))))))
   \<and> (implementsNode (model_type n) \<and> model_refetchQuery n = Inr query
        \<and> fetcher c [(''query'', VStr (toString d (Op query) VNull))] None
            = Returned (Resolved response)
        \<and> truthy (get_own response ''data'')
        \<and> decode d (Some query) (get_own response ''data'') (classRegistry c) None
            = Inr (VModel new)
      \<longrightarrow> refetch d c (Some n) =
            ([FetcherCall [(''query'', VStr (toString d (Op query) VNull))] None,
              SetModel response (VModel new)],
             Returned (Resolved (get_own (model_attrs new) ''node''))))"
  by (auto simp: refetch_def send_def select_operation_def graphQLParams_def object_assign_def
        call_fetcher_def andThen_def send_callback_def refetch_callback_def get_own_set_own)

theorem refetch_errors_and_result_witness:
  "\<not> implementsNode (model_type (example_model False [] VUndefined))
   \<and> refetch example_deps (example_client example_response) (Some (example_model False [] VUndefined)) =
       ([], Threw (Error (CHR 0x27 # ''client#refetch'' @ CHR 0x27 #
              '' must be called with a type that implements Node. Received Product.'')))
   \<and> implementsNode (model_type (example_model True [] VUndefined))
   \<and> model_refetchQuery (example_model True [] VUndefined) = Inr (example_operation ''refetch'')
   \<and> fetcher (example_client example_response)
        [(''query'', VStr (toString example_deps (Op (example_operation ''refetch'')) VNull))] None
       = Returned (Resolved example_response)
   \<and> truthy (get_own example_response ''data'')
   \<and> decode example_deps (Some (example_operation ''refetch'')) (get_own example_response ''data'')
        (classRegistry (example_client example_response)) None
       = Inr (VModel (example_model False [(''node'', get_own example_response ''data'')] VUndefined))
   \<and> refetch example_deps (example_client example_response) (Some (example_model True [] VUndefined)) =
       ([FetcherCall [(''query'', VStr ''query refetch { shop { name } }'')] None,
         SetModel example_response
           (VModel (example_model False [(''node'', get_own example_response ''data'')] VUndefined))],
        Returned (Resolved (VObj [(''shop'', VObj [(''name'', VStr ''Snowdevil'')])])))"
  using refetch_errors_and_result
          [of example_deps "example_client example_response" "example_model False [] VUndefined"
              "example_model True [] VUndefined" "example_operation ''refetch''" example_response
              "example_model False [(''node'', get_own example_response ''data'')] VUndefined"]
  by (simp add: example_deps_def example_client_def example_operation_def example_response_def
        example_model_def example_type_def render_operation_def render_arguments_def
        get_own_def refetch_type_message_def)

subsection \<open>C9\<close>

text \<open>
  C9. \<open>fetchNextPage\<close> on a non-empty array whose last element is a model does what it does
  on that model alone, and its first effect is the transport call carrying the next-page
  query of that model; two non-empty arrays with the same last element are not
  distinguished by \<open>hasNextPage\<close> or \<open>fetchNextPage\<close>. \<open>fetchAllPages\<close> on an empty list, or
  on a list whose last model has no next page, resolves at once with the list it was given
  and has no effect, for every bound on the recursion.
\<close>

theorem pagination_inspects_last:
  "(nodes \<noteq> [] \<and> last nodes = VModel m \<longrightarrow>
      fetchNextPage d c (VArr nodes) opts = fetchNextPage d c (VModel m) opts
      \<and> (\<forall>query path. model_nextPageQueryAndPath m = Inr (query, path) \<longrightarrow>
           (\<exists>evs result.
              fetchNextPage d c (VArr nodes) opts =
                (FetcherCall
                   (graphQLParams d (Op query)
                      (if model_variableValues m \<noteq> None \<or> opts \<noteq> None
                       then Some (object_assign (object_assign [] (model_variableValues m)) opts)
                       else None)
                      None VNull)
                   None # evs, result))))
   \<and> (xs \<noteq> [] \<and> ys \<noteq> [] \<and> last xs = last ys \<longrightarrow>
        hasNextPage xs = hasNextPage ys
        \<and> fetchNextPage d c (VArr xs) opts = fetchNextPage d c (VArr ys) opts)
   \<and> fetchAllPages fuel d c [] pageSize = Some ([], Returned (Resolved []))
   \<and> (pages \<noteq> [] \<and> last pages = VModel p \<and> \<not> truthy (model_hasNextPage p) \<longrightarrow>
        fetchAllPages fuel d c pages pageSize = Some ([], Returned (Resolved pages)))"
proof (intro conjI impI allI)
  assume a: "nodes \<noteq> [] \<and> last nodes = VModel m"
  then show e: "fetchNextPage d c (VArr nodes) opts = fetchNextPage d c (VModel m) opts"
    by (simp add: fetchNextPage_def)
  fix query path assume q: "model_nextPageQueryAndPath m = Inr (query, path)"
  show "\<exists>evs result. fetchNextPage d c (VArr nodes) opts =
          (FetcherCall
             (graphQLParams d (Op query)
                (if model_variableValues m \<noteq> None \<or> opts \<noteq> None
                 then Some (object_assign (object_assign [] (model_variableValues m)) opts)
                 else None)
                None VNull)
             None # evs, result)"
    unfolding e using q
    by (auto simp: fetchNextPage_def send_def select_operation_def call_fetcher_def Let_def
          split: outcome.splits prod.splits)
next
  assume "xs \<noteq> [] \<and> ys \<noteq> [] \<and> last xs = last ys"
  then show "hasNextPage xs = hasNextPage ys"
    "fetchNextPage d c (VArr xs) opts = fetchNextPage d c (VArr ys) opts"
    by (simp_all add: hasNextPage_def fetchNextPage_def)
next
  show "fetchAllPages fuel d c [] pageSize = Some ([], Returned (Resolved []))"
    by (rule fetchAllPages_stop [where v = "VNum 0"]) (simp_all add: hasNextPage_def)
next
  assume "pages \<noteq> [] \<and> last pages = VModel p \<and> \<not> truthy (model_hasNextPage p)"
  then show "fetchAllPages fuel d c pages pageSize = Some ([], Returned (Resolved pages))"
    by (intro fetchAllPages_stop [where v = "model_hasNextPage p"]) (simp_all add: hasNextPage_def)
qed

theorem pagination_inspects_last_witness:
  "example_nodes \<noteq> []
   \<and> last example_nodes = VModel (example_model True [(''handle'', VStr ''b'')] (VBool True))
   \<and> model_nextPageQueryAndPath (example_model True [(''handle'', VStr ''b'')] (VBool True))
       = Inr (example_operation ''nextPage'', [''shop'', ''products''])
   \<and> (\<exists>evs result.
        fetchNextPage example_deps (example_client example_response) (VArr example_nodes)
            (Some [(''first'', VNum 20)]) =
          (FetcherCall [(''query'', VStr ''query nextPage { shop { name } }''),
                        (''variables'', VObj [(''first'', VNum 20)])] None # evs, result))
   \<and> [last example_nodes] \<noteq> [] \<and> last example_nodes = last [last example_nodes]
   \<and> fetchNextPage example_deps (example_client example_response) (VArr example_nodes)
         (Some [(''first'', VNum 20)]) =
       fetchNextPage example_deps (example_client example_response) (VArr [last example_nodes])
         (Some [(''first'', VNum 20)])
   \<and> example_pages \<noteq> []
   \<and> last example_pages = VModel (example_model True [(''handle'', VStr ''b'')] (VBool False))
   \<and> \<not> truthy (model_hasNextPage (example_model True [(''handle'', VStr ''b'')] (VBool False)))
   \<and> fetchAllPages 0 example_deps (example_client example_response) example_pages (VNum 20) =
       Some ([], Returned (Resolved example_pages))"
proof -
  have g: "graphQLParams example_deps (Op (example_operation ''nextPage''))
             (if model_variableValues (example_model True [(''handle'', VStr ''b'')] (VBool True)) \<noteq> None
                 \<or> Some [(''first'', VNum 20)] \<noteq> None
              then Some (object_assign (object_assign [] (model_variableValues
                      (example_model True [(''handle'', VStr ''b'')] (VBool True))))
                      (Some [(''first'', VNum 20)]))
              else None) None VNull
           = [(''query'', VStr ''query nextPage { shop { name } }''),
              (''variables'', VObj [(''first'', VNum 20)])]"
    by (simp add: graphQLParams_def object_assign_def example_deps_def example_operation_def
          example_model_def render_operation_def render_arguments_def)
  have h: "example_nodes \<noteq> []"
    "last example_nodes = VModel (example_model True [(''handle'', VStr ''b'')] (VBool True))"
    "model_nextPageQueryAndPath (example_model True [(''handle'', VStr ''b'')] (VBool True))
       = Inr (example_operation ''nextPage'', [''shop'', ''products''])"
    "[last example_nodes] \<noteq> []" "last example_nodes = last [last example_nodes]"
    "example_pages \<noteq> []"
    "last example_pages = VModel (example_model True [(''handle'', VStr ''b'')] (VBool False))"
    "\<not> truthy (model_hasNextPage (example_model True [(''handle'', VStr ''b'')] (VBool False)))"
    by (simp_all add: example_nodes_def example_pages_def example_model_def)
  note T = pagination_inspects_last
             [of example_nodes "example_model True [(''handle'', VStr ''b'')] (VBool True)"
                 example_deps "example_client example_response" "Some [(''first'', VNum 20)]"
                 example_nodes "[last example_nodes]" 0 "VNum 20" example_pages
                 "example_model True [(''handle'', VStr ''b'')] (VBool False)"]
  have 1: "\<exists>evs result.
        fetchNextPage example_deps (example_client example_response) (VArr example_nodes)
            (Some [(''first'', VNum 20)]) =
          (FetcherCall [(''query'', VStr ''query nextPage { shop { name } }''),
                        (''variables'', VObj [(''first'', VNum 20)])] None # evs, result)"
  proof -
    from T h(1,2)
    have A: "\<forall>query path.
           model_nextPageQueryAndPath (example_model True [(''handle'', VStr ''b'')] (VBool True))
             = Inr (query, path) \<longrightarrow>
           (\<exists>evs result.
              fetchNextPage example_deps (example_client example_response) (VArr example_nodes)
                  (Some [(''first'', VNum 20)]) =
                (FetcherCall
                   (graphQLParams example_deps (Op query)
                      (if model_variableValues (example_model True [(''handle'', VStr ''b'')] (VBool True)) \<noteq> None
                          \<or> Some [(''first'', VNum 20)] \<noteq> None
                       then Some (object_assign (object_assign [] (model_variableValues
                               (example_model True [(''handle'', VStr ''b'')] (VBool True))))
                               (Some [(''first'', VNum 20)]))
                       else None)
                      None VNull)
                   None # evs, result))"
      by blast
    from A [rule_format, OF h(3)] show ?thesis unfolding g .
  qed
  have 2: "fetchNextPage example_deps (example_client example_response) (VArr example_nodes)
             (Some [(''first'', VNum 20)]) =
           fetchNextPage example_deps (example_client example_response) (VArr [last example_nodes])
             (Some [(''first'', VNum 20)])"
    using T h(1,4,5) by blast
  have 3: "fetchAllPages 0 example_deps (example_client example_response) example_pages (VNum 20) =
       Some ([], Returned (Resolved example_pages))"
    using T h(6,7,8) by blast
  show ?thesis
    using h 1 2 3 by blast
qed

subsection \<open>C10\<close>

text \<open>
  C10. The constructor fails with an error unless exactly one of \<open>url\<close> and \<open>fetcher\<close> is
  supplied (an empty \<open>url\<close> string is treated by the constructor as none), and it fails when
  \<open>fetcherOptions\<close> comes with a \<open>fetcher\<close>. When it succeeds, the client's fetcher is either
  the one built by \<open>httpFetcher\<close> from the non-empty \<open>url\<close> and the \<open>fetcherOptions\<close>, or the
  \<open>fetcher\<close> function that was supplied.
\<close>

theorem constructor_url_or_fetcher:
  "(\<not> (url_supplied opts \<noteq> fetcher_supplied opts) \<longrightarrow>
      (\<exists>msg. constructor d bundle opts = Inl (Error msg)))
   \<and> (opt_fetcherOptions opts \<noteq> None \<and> fetcher_supplied opts \<longrightarrow>
        (\<exists>msg. constructor d bundle opts = Inl (Error msg)))
   \<and> (\<forall>c. constructor d bundle opts = Inr c \<longrightarrow>
         (\<exists>u. opt_url opts = Some u \<and> u \<noteq> [] \<and>
              fetcher c = httpFetcher d u (opt_fetcherOptions opts)) \<or>
         opt_fetcher opts = Some (fetcher c))"
  by (auto simp: constructor_def url_supplied_def fetcher_supplied_def Let_def
        split: option.splits if_splits)

theorem constructor_url_or_fetcher_witness:
  "\<not> (url_supplied (example_options None None None) \<noteq> fetcher_supplied (example_options None None None))
   \<and> constructor example_deps [] (example_options None None None)
       = Inl (Error url_or_fetcher_needed_message)
   \<and> \<not> (url_supplied (example_options (Some ''https://example.test/graphql'') None
                        (Some (fetcher (example_client example_response))))
        \<noteq> fetcher_supplied (example_options (Some ''https://example.test/graphql'') None
                        (Some (fetcher (example_client example_response)))))
   \<and> constructor example_deps [] (example_options (Some ''https://example.test/graphql'') None
                        (Some (fetcher (example_client example_response))))
       = Inl (Error url_and_fetcher_message)
   \<and> opt_fetcherOptions (example_options None (Some [])
                          (Some (fetcher (example_client example_response)))) \<noteq> None
   \<and> fetcher_supplied (example_options None (Some [])
                          (Some (fetcher (example_client example_response))))
   \<and> constructor example_deps [] (example_options None (Some [])
                          (Some (fetcher (example_client example_response))))
       = Inl (Error fetcherOptions_message)
   \<and> constructor example_deps [] (example_options (Some ''https://example.test/graphql'') (Some []) None)
       = Inr \<lparr>typeBundle = [], classRegistry = [],
              fetcher = httpFetcher example_deps ''https://example.test/graphql'' (Some [])\<rparr>"
  using constructor_url_or_fetcher [of "example_options None None None" example_deps "[]"]
    constructor_url_or_fetcher
      [of "example_options (Some ''https://example.test/graphql'') None
             (Some (fetcher (example_client example_response)))" example_deps "[]"]
    constructor_url_or_fetcher
      [of "example_options None (Some []) (Some (fetcher (example_client example_response)))"
          example_deps "[]"]
    constructor_url_or_fetcher
      [of "example_options (Some ''https://example.test/graphql'') (Some []) None" example_deps "[]"]
  by (simp add: constructor_def example_options_def url_supplied_def fetcher_supplied_def
        new_ClassRegistry_def)

end
